theory Spec2Isabelle
  imports Main
begin

section \<open>Shared vocabulary\<close>

text \<open>
  A Go \<^verbatim>\<open>error\<close> is either nil or a value carrying a message. Non-nil errors are values
  of the type below; a possibly-nil error is an \<open>error option\<close> with \<open>None\<close> for nil.
  A \<^verbatim>\<open>time.Duration\<close> is a number of nanoseconds.
\<close>

datatype error = Error string

type_synonym duration = int

definition Second :: duration where
  "Second = 1000000000"

definition Minute :: duration where
  "Minute = 60 * Second"

definition Hour :: duration where
  "Hour = 60 * Minute"

text \<open>A channel of \<^verbatim>\<open>struct{}\<close> used as a stop signal is open until it is closed.\<close>

datatype chanState = ChanOpen | ChanClosed

text \<open>Closing a channel that is already closed is a run-time panic in Go.\<close>

datatype panic = CloseOfClosedChannel


section \<open>pkg/hub/hub.go\<close>

subsection \<open>Types used by the Hub\<close>

text \<open>
  Modelled from the spec: the declaration of \<^verbatim>\<open>ClientStatus\<close> is not part of the sources
  at hand; the client-status state machine has the states Down (initial) and Up.
\<close>

datatype ClientStatus = ClientStatusUp | ClientStatusDown

text \<open>
  The package \<^verbatim>\<open>util\<close> with its \<^verbatim>\<open>Timer\<close> is not part of the sources at hand. A timer is
  represented by how it was constructed and by the calls it has received so far; what a
  call returns is a parameter \<open>impl\<close> of everything that uses a timer: a function of the
  timer as it stands (construction and history) and of the call.
\<close>

datatype timerCall = Pause | Resume bool

datatype timerCtor = NewTimer | NewRunningTimer bool

record Timer =
  timerName :: string
  timerPause :: duration
  timerCtor :: timerCtor
  calls :: "timerCall list"

type_synonym timerImpl = "Timer \<Rightarrow> timerCall \<Rightarrow> error option"

definition callTimer :: "timerImpl \<Rightarrow> timerCall \<Rightarrow> Timer \<Rightarrow> error option \<times> Timer" where
  "callTimer impl c t = (impl t c, t\<lparr>calls := calls t @ [c]\<rparr>)"

record Timings =
  GetMetricsPause :: duration
  ScanCompletionPause :: duration
  FetchUnknownScansPause :: duration
  FetchAllScansPause :: duration
  LoginPause :: duration
  RefreshScanThreshold :: duration

text \<open>The hub's \<^verbatim>\<open>Client\<close> is kept as the arguments it was built from.\<close>

datatype 'r Client = NewClient string string string 'r

text \<open>
  The struct \<^verbatim>\<open>Hub\<close>. The field \<open>model\<close> is a pointer, \<open>None\<close> when nil. The channels
  \<^verbatim>\<open>publishUpdatesCh\<close> and \<^verbatim>\<open>actions\<close> are unbuffered and hold no data of their own; of
  the channel \<open>stop\<close> only whether it is closed matters.
\<close>

record ('r, 'm) Hub =
  client :: "'r Client"
  host :: string
  status :: ClientStatus
  model :: "'m option"
  errors :: "error list"
  getMetricsTimer :: Timer
  loginTimer :: Timer
  refreshScansTimer :: Timer
  fetchAllScansTimer :: Timer
  fetchScansTimer :: Timer
  checkScansForCompletionTimer :: Timer
  stop :: chanState

record ('r, 'm) clientAction =
  actionName :: string
  applyFn :: "('r, 'm) Hub \<Rightarrow> error option \<times> ('r, 'm) Hub"

subsection \<open>Construction\<close>

definition startRefreshScansTimer :: "string \<Rightarrow> duration \<Rightarrow> Timer" where
  "startRefreshScansTimer h pause =
     \<lparr>timerName = ''refresh-scans-'' @ h, timerPause = pause, timerCtor = NewTimer, calls = []\<rparr>"

definition startLoginTimer :: "string \<Rightarrow> duration \<Rightarrow> Timer" where
  "startLoginTimer h pause =
     \<lparr>timerName = ''login-'' @ h, timerPause = pause, timerCtor = NewRunningTimer True,
      calls = []\<rparr>"

definition startFetchAllScansTimer :: "string \<Rightarrow> duration \<Rightarrow> Timer" where
  "startFetchAllScansTimer h pause =
     \<lparr>timerName = ''fetchScans-'' @ h, timerPause = pause, timerCtor = NewTimer, calls = []\<rparr>"

definition startFetchUnknownScansTimer :: "string \<Rightarrow> duration \<Rightarrow> Timer" where
  "startFetchUnknownScansTimer h pause =
     \<lparr>timerName = ''fetchUnknownScans-'' @ h, timerPause = pause, timerCtor = NewTimer,
      calls = []\<rparr>"

definition startGetMetricsTimer :: "string \<Rightarrow> duration \<Rightarrow> Timer" where
  "startGetMetricsTimer h pause =
     \<lparr>timerName = ''getMetrics-'' @ h, timerPause = pause, timerCtor = NewRunningTimer True,
      calls = []\<rparr>"

definition startCheckScansForCompletionTimer :: "string \<Rightarrow> duration \<Rightarrow> Timer" where
  "startCheckScansForCompletionTimer h pause =
     \<lparr>timerName = ''checkScansForCompletion-'' @ h, timerPause = pause, timerCtor = NewTimer,
      calls = []\<rparr>"

definition NewHub :: "string \<Rightarrow> string \<Rightarrow> string \<Rightarrow> 'r \<Rightarrow> Timings \<Rightarrow> ('r, 'm) Hub" where
  "NewHub usr pwd h rawClient timings =
     \<lparr>client = NewClient usr pwd h rawClient,
      host = h,
      status = ClientStatusDown,
      model = None,
      errors = [],
      getMetricsTimer = startGetMetricsTimer h (GetMetricsPause timings),
      loginTimer = startLoginTimer h (LoginPause timings),
      refreshScansTimer = startRefreshScansTimer h (RefreshScanThreshold timings),
      fetchAllScansTimer = startFetchAllScansTimer h (FetchAllScansPause timings),
      fetchScansTimer = startFetchUnknownScansTimer h (FetchUnknownScansPause timings),
      checkScansForCompletionTimer =
        startCheckScansForCompletionTimer h (ScanCompletionPause timings),
      stop = ChanOpen\<rparr>"

subsection \<open>The error ring\<close>

definition recordError :: "error option \<Rightarrow> ('r, 'm) Hub \<Rightarrow> ('r, 'm) Hub" where
  "recordError err hub =
     (let hub1 = (case err of
                    Some e \<Rightarrow> hub\<lparr>errors := errors hub @ [e]\<rparr>
                  | None \<Rightarrow> hub)
      in if length (errors hub1) > 1000
         then hub1\<lparr>errors := drop 500 (errors hub1)\<rparr>
         else hub1)"

text \<open>A sequence of calls of \<^verbatim>\<open>recordError\<close>, first call first.\<close>

definition recordErrors :: "error option list \<Rightarrow> ('r, 'm) Hub \<Rightarrow> ('r, 'm) Hub" where
  "recordErrors errs hub = fold recordError errs hub"

subsection \<open>The login handler\<close>

text \<open>
  Each line \<^verbatim>\<open>hub.recordError(hub.<timer>.Pause())\<close> of \<^verbatim>\<open>didLogin\<close> calls the timer and
  records what the call returned.
\<close>

definition pauseCheckScansForCompletionTimer ::
    "timerImpl \<Rightarrow> ('r, 'm) Hub \<Rightarrow> ('r, 'm) Hub" where
  "pauseCheckScansForCompletionTimer impl hub =
     (case callTimer impl Pause (checkScansForCompletionTimer hub) of
        (r, t) \<Rightarrow> recordError r (hub\<lparr>checkScansForCompletionTimer := t\<rparr>))"

definition pauseFetchScansTimer :: "timerImpl \<Rightarrow> ('r, 'm) Hub \<Rightarrow> ('r, 'm) Hub" where
  "pauseFetchScansTimer impl hub =
     (case callTimer impl Pause (fetchScansTimer hub) of
        (r, t) \<Rightarrow> recordError r (hub\<lparr>fetchScansTimer := t\<rparr>))"

definition pauseFetchAllScansTimer :: "timerImpl \<Rightarrow> ('r, 'm) Hub \<Rightarrow> ('r, 'm) Hub" where
  "pauseFetchAllScansTimer impl hub =
     (case callTimer impl Pause (fetchAllScansTimer hub) of
        (r, t) \<Rightarrow> recordError r (hub\<lparr>fetchAllScansTimer := t\<rparr>))"

definition pauseRefreshScansTimer :: "timerImpl \<Rightarrow> ('r, 'm) Hub \<Rightarrow> ('r, 'm) Hub" where
  "pauseRefreshScansTimer impl hub =
     (case callTimer impl Pause (refreshScansTimer hub) of
        (r, t) \<Rightarrow> recordError r (hub\<lparr>refreshScansTimer := t\<rparr>))"

definition resumeCheckScansForCompletionTimer ::
    "timerImpl \<Rightarrow> bool \<Rightarrow> ('r, 'm) Hub \<Rightarrow> ('r, 'm) Hub" where
  "resumeCheckScansForCompletionTimer impl now hub =
     (case callTimer impl (Resume now) (checkScansForCompletionTimer hub) of
        (r, t) \<Rightarrow> recordError r (hub\<lparr>checkScansForCompletionTimer := t\<rparr>))"

definition resumeFetchScansTimer :: "timerImpl \<Rightarrow> bool \<Rightarrow> ('r, 'm) Hub \<Rightarrow> ('r, 'm) Hub" where
  "resumeFetchScansTimer impl now hub =
     (case callTimer impl (Resume now) (fetchScansTimer hub) of
        (r, t) \<Rightarrow> recordError r (hub\<lparr>fetchScansTimer := t\<rparr>))"

definition resumeFetchAllScansTimer :: "timerImpl \<Rightarrow> bool \<Rightarrow> ('r, 'm) Hub \<Rightarrow> ('r, 'm) Hub" where
  "resumeFetchAllScansTimer impl now hub =
     (case callTimer impl (Resume now) (fetchAllScansTimer hub) of
        (r, t) \<Rightarrow> recordError r (hub\<lparr>fetchAllScansTimer := t\<rparr>))"

definition resumeRefreshScansTimer :: "timerImpl \<Rightarrow> bool \<Rightarrow> ('r, 'm) Hub \<Rightarrow> ('r, 'm) Hub" where
  "resumeRefreshScansTimer impl now hub =
     (case callTimer impl (Resume now) (refreshScansTimer hub) of
        (r, t) \<Rightarrow> recordError r (hub\<lparr>refreshScansTimer := t\<rparr>))"

text \<open>
  \<^verbatim>\<open>didLogin(err)\<close> sends an action named "didLogin" on the action channel; the closure it
  carries is \<open>didLogin_apply\<close>, which always returns nil.
\<close>

definition didLogin_apply ::
    "timerImpl \<Rightarrow> error option \<Rightarrow> ('r, 'm) Hub \<Rightarrow> error option \<times> ('r, 'm) Hub" where
  "didLogin_apply impl err hub0 =
     (let hub = recordError err hub0 in
      if err \<noteq> None \<and> status hub = ClientStatusUp then
        (None,
         pauseRefreshScansTimer impl
           (pauseFetchAllScansTimer impl
             (pauseFetchScansTimer impl
               (pauseCheckScansForCompletionTimer impl
                 (hub\<lparr>status := ClientStatusDown\<rparr>)))))
      else if err = None \<and> status hub = ClientStatusDown then
        (None,
         resumeRefreshScansTimer impl True
           (resumeFetchAllScansTimer impl True
             (resumeFetchScansTimer impl True
               (resumeCheckScansForCompletionTimer impl True
                 (hub\<lparr>status := ClientStatusUp\<rparr>)))))
      else (None, hub))"

definition didLogin :: "timerImpl \<Rightarrow> error option \<Rightarrow> ('r, 'm) clientAction" where
  "didLogin impl err = \<lparr>actionName = ''didLogin'', applyFn = didLogin_apply impl err\<rparr>"

text \<open>
  The body of the actor loop of \<^verbatim>\<open>NewHub\<close> for one received action: the action is applied
  to the hub. The event and error counters it feeds and the log line it writes are not part
  of the hub.
\<close>

definition processAction :: "('r, 'm) clientAction \<Rightarrow> ('r, 'm) Hub \<Rightarrow> ('r, 'm) Hub" where
  "processAction action hub = snd (applyFn action hub)"

subsection \<open>Stopping\<close>

text \<open>\<^verbatim>\<open>Stop\<close> is \<^verbatim>\<open>close(hub.stop)\<close> and nothing else.\<close>

definition Stop :: "('r, 'm) Hub \<Rightarrow> panic + ('r, 'm) Hub" where
  "Stop hub =
     (case stop hub of
        ChanClosed \<Rightarrow> Inl CloseOfClosedChannel
      | ChanOpen \<Rightarrow> Inr (hub\<lparr>stop := ChanClosed\<rparr>))"

text \<open>Concrete timings for the examples: the default pauses of the six timers.\<close>

definition sampleTimings :: Timings where
  "sampleTimings =
     \<lparr>GetMetricsPause = 15 * Second, ScanCompletionPause = Minute,
      FetchUnknownScansPause = Minute, FetchAllScansPause = 30 * Minute,
      LoginPause = 30 * Second, RefreshScanThreshold = Hour\<rparr>"

text \<open>Timers for the examples: every call on them returns nil.\<close>

definition quietTimer :: timerImpl where
  "quietTimer t c = None"


section \<open>pkg/core/hubmanager.go\<close>

subsection \<open>Types used by the HubManager\<close>

text \<open>
  The values of the map \<^verbatim>\<open>hubs\<close> have the interface type \<^verbatim>\<open>hub.ClientInterface\<close>, whose
  declaration is not part of the sources at hand. The only values ever stored are the
  results of \<^verbatim>\<open>hub.NewClient(username, password, hubURL, port, httpTimeout, timeout)\<close>,
  kept here as the arguments they were built from. The methods the manager calls on a
  client (\<^verbatim>\<open>Stop\<close>, \<^verbatim>\<open>StartScanClient\<close>, \<^verbatim>\<open>FinishScanClient\<close>) act on the client, not on
  the manager: each call is appended to the log \<open>clientCalls\<close> together with the URL the
  client is registered under. The lines written by \<^verbatim>\<open>log.Errorf\<close> are appended to
  \<open>logged\<close>. Both logs are part of the model only, not fields of the struct.
\<close>

datatype ClientInterface = HubClient string string string int duration duration

datatype clientCall = CallStop | CallStartScanClient string | CallFinishScanClient string

text \<open>
  The struct \<^verbatim>\<open>HubManager\<close>. The map \<open>hubs\<close> is an association list, looked up with
  \<open>map_of\<close>; Go leaves the order in which a map is ranged over open, the list fixes one.
  The channels of the struct carry no data that the functions below read.
\<close>

record HubManager =
  username :: string
  password :: string
  port :: int
  httpTimeout :: duration
  hubs :: "(string \<times> ClientInterface) list"
  clientCalls :: "(string \<times> clientCall) list"
  logged :: "string list"

definition NewHubManager :: "string \<Rightarrow> string \<Rightarrow> int \<Rightarrow> duration \<Rightarrow> HubManager" where
  "NewHubManager usr pwd prt tmo =
     \<lparr>username = usr, password = pwd, port = prt, httpTimeout = tmo,
      hubs = [], clientCalls = [], logged = []\<rparr>"

text \<open>The keys of the map \<open>hubs\<close>.\<close>

definition hubURLsOf :: "HubManager \<Rightarrow> string set" where
  "hubURLsOf hm = fst ` set (hubs hm)"

subsection \<open>Creating and removing hubs\<close>




text \<open>The first two loops of \<^verbatim>\<open>SetHubs\<close>: the set of new URLs and the hubs to create.\<close>

definition newHubURLsOf :: "string list \<Rightarrow> string list" where
  "newHubURLsOf hubURLs = remdups hubURLs"

definition hubsToCreate :: "string list \<Rightarrow> HubManager \<Rightarrow> string list" where
  "hubsToCreate hubURLs hm =
     filter (\<lambda>hubURL. map_of (hubs hm) hubURL = None) (newHubURLsOf hubURLs)"

text \<open>
  \<^verbatim>\<open>SetHubs\<close> starts a goroutine that creates the hubs of \<open>hubsToCreate\<close> one after the
  other, and itself goes on to remove the hubs that are no longer wanted. The two loops run
  side by side. A run of \<^verbatim>\<open>SetHubs\<close> up to the end of its goroutine is a sequence of loop
  iterations: those of the goroutine and those of the removal loop, each loop in its own
  order, interleaved in some way.
\<close>

datatype setHubsStep = Create string | Delete string



definition SetHubs_schedules :: "string list \<Rightarrow> HubManager \<Rightarrow> setHubsStep list set" where
  "SetHubs_schedules hubURLs hm =
     shuffles (map Create (hubsToCreate hubURLs hm)) (map Delete (map fst (hubs hm)))"



subsection \<open>Routing by URL\<close>

definition StartScanClient ::
    "string \<Rightarrow> string \<Rightarrow> HubManager \<Rightarrow> error option \<times> HubManager" where
  "StartScanClient hubURL scanName hm =
     (case map_of (hubs hm) hubURL of
        None \<Rightarrow> (Some (Error (''hub '' @ hubURL @ '' not found'')), hm)
      | Some _ \<Rightarrow>
          (None,
           hm\<lparr>clientCalls := clientCalls hm @ [(hubURL, CallStartScanClient scanName)]\<rparr>))"

definition FinishScanClient ::
    "string \<Rightarrow> string \<Rightarrow> HubManager \<Rightarrow> error option \<times> HubManager" where
  "FinishScanClient hubURL scanName hm =
     (case map_of (hubs hm) hubURL of
        None \<Rightarrow> (Some (Error (''hub '' @ hubURL @ '' not found'')), hm)
      | Some _ \<Rightarrow>
          (None,
           hm\<lparr>clientCalls := clientCalls hm @ [(hubURL, CallFinishScanClient scanName)]\<rparr>))"


text \<open>A manager that knows the hubs h1 and h2, for the examples.\<close>

definition sampleHubManager :: HubManager where
  "sampleHubManager =
     \<lparr>username = ''user'', password = ''pw'', port = 443, httpTimeout = 10 * Second,
      hubs = [(''h1'', HubClient ''user'' ''pw'' ''h1'' 443 (10 * Second) (999999 * Hour)),
              (''h2'', HubClient ''user'' ''pw'' ''h2'' 443 (10 * Second) (999999 * Hour))],
      clientCalls = [], logged = []\<rparr>"


section \<open>pkg/core: the Perceptor\<close>

subsection \<open>Constants\<close>

definition checkHubForCompletedScansPause :: duration where
  "checkHubForCompletedScansPause = 20 * Second"

definition checkHubThrottle :: duration where
  "checkHubThrottle = 1 * Second"

definition checkForStalledScansPause :: duration where
  "checkForStalledScansPause = 1 * Minute"

definition stalledScanTimeout :: duration where
  "stalledScanTimeout = 30 * Minute"

subsection \<open>Types used by the Perceptor\<close>

text \<open>
  Modelled from the spec: the declarations of \<^verbatim>\<open>Image\<close>, \<^verbatim>\<open>ImageInfo\<close>, \<^verbatim>\<open>Model\<close> and
  \<^verbatim>\<open>PerceptorConfig\<close> are not part of the sources at hand. An image has its \<open>Sha\<close> and a
  name; an ImageInfo has the sha of its image and the time of its last change of state, from
  which \<^verbatim>\<open>timeInCurrentScanStatus\<close> is the time elapsed until now; the central model holds
  the concurrent-scan-client limit it was built with by \<^verbatim>\<open>NewModel\<close>; the configuration has
  the fields \<open>HubUser\<close>, \<open>HubUserPassword\<close>, \<open>HubHost\<close> and a concurrent-scan limit.
\<close>

record Image =
  Sha :: string
  Name :: string

record ImageInfo =
  ImageSha :: string
  TimeOfLastStatusChange :: int

definition timeInCurrentScanStatus :: "int \<Rightarrow> ImageInfo \<Rightarrow> duration" where
  "timeInCurrentScanStatus now imageInfo = now - TimeOfLastStatusChange imageInfo"

datatype Model = NewModel (concurrentScanLimit: int)

record PerceptorConfig =
  HubHost :: string
  HubUser :: string
  HubUserPassword :: string
  ConcurrentScanLimit :: int

text \<open>
  A scan is a value of the hub package; a pointer to a scan is \<open>None\<close> when nil. The struct
  \<^verbatim>\<open>HubImageScan{Sha, Scan}\<close> and the actions the loops below send to the reducer:
\<close>

datatype 's HubImageScan = HubImageScan string "'s option"

datatype 's action =
    hubScanResults "'s HubImageScan"
  | hubCheckResults "'s HubImageScan"
  | requeueStalledScan string

text \<open>
  What a loop of the Perceptor does to the outside, in order: it sleeps, calls
  \<^verbatim>\<open>FetchScanFromImage\<close> on the hub client, writes a log line, or sends an action on the
  channel \<^verbatim>\<open>actions\<close>.
\<close>

datatype 's event =
    Sleep duration
  | FetchScanFromImage Image
  | LogErrorf Image error
  | LogInfof Image "'s option"
  | Send "'s action"

text \<open>
  The struct \<^verbatim>\<open>Perceptor\<close>, with the reducer kept as the model it was started on. The hub
  client is a value of any type \<open>'h\<close>; \<^verbatim>\<open>FetchScanFromImage\<close> is a parameter \<open>fetch\<close> that
  takes the client and the image and returns the pair \<open>(scan, err)\<close> and the client after
  the call.
\<close>

record 'h Perceptor =
  hubClient :: 'h
  reducer :: Model
  inProgressScanClientScans :: "ImageInfo list"
  inProgressHubScans :: "Image list"

type_synonym ('h, 's) fetcher = "'h \<Rightarrow> Image \<Rightarrow> ('s option \<times> error option) \<times> 'h"

subsection \<open>Construction\<close>

text \<open>The goroutines that a \<^verbatim>\<open>go\<close> statement can start in this file.\<close>

datatype goroutine =
    CombineActions
  | CloseTheCircle
  | StartCheckingForImagesInHub
  | StartPollingHubForCompletedScans
  | StartCheckingForStalledScans

text \<open>
  \<^verbatim>\<open>newPerceptorHelper\<close> returns the Perceptor; the second component lists the goroutines
  its \<^verbatim>\<open>go\<close> statements start, in the order of the statements.
\<close>

definition newPerceptorHelper :: "'h \<Rightarrow> 'h Perceptor \<times> goroutine list" where
  "newPerceptorHelper hc =
     (let concurrentScanLimit = 2 in
      (\<lparr>hubClient = hc,
        reducer = NewModel concurrentScanLimit,
        inProgressScanClientScans = [],
        inProgressHubScans = []\<rparr>,
       [CombineActions, CloseTheCircle, StartCheckingForImagesInHub,
        StartPollingHubForCompletedScans]))"

text \<open>
  \<^verbatim>\<open>NewPerceptor\<close>; \<^verbatim>\<open>hub.NewFetcher\<close>, which may fail, is the parameter \<open>NewFetcher\<close>.
\<close>

definition NewPerceptor ::
    "(string \<Rightarrow> string \<Rightarrow> string \<Rightarrow> error + 'h) \<Rightarrow> 'a PerceptorConfig_scheme
       \<Rightarrow> error + ('h Perceptor \<times> goroutine list)" where
  "NewPerceptor NewFetcher cfg =
     (let baseURL = ''https://'' @ HubHost cfg in
      case NewFetcher (HubUser cfg) (HubUserPassword cfg) baseURL of
        Inl err \<Rightarrow> Inl err
      | Inr hc \<Rightarrow> Inr (newPerceptorHelper hc))"

subsection \<open>The loops\<close>

text \<open>
  One pass of the outer loop of \<^verbatim>\<open>startCheckingForStalledScans\<close>, at the time \<open>now\<close>.
\<close>

definition checkForStalledScansPass :: "int \<Rightarrow> 'h Perceptor \<Rightarrow> 's event list" where
  "checkForStalledScansPass now perceptor =
     Sleep checkForStalledScansPause #
     map (\<lambda>imageInfo. Send (requeueStalledScan (ImageSha imageInfo)))
       (filter (\<lambda>imageInfo. timeInCurrentScanStatus now imageInfo > stalledScanTimeout)
          (inProgressScanClientScans perceptor))"

text \<open>
  The inner loop of \<^verbatim>\<open>startPollingHubForCompletedScans\<close> over the images, and one pass of
  its outer loop.
\<close>

fun pollImages :: "('h, 's) fetcher \<Rightarrow> Image list \<Rightarrow> 'h \<Rightarrow> 's event list \<times> 'h" where
  "pollImages fetch [] hc = ([], hc)"
| "pollImages fetch (img # images) hc =
     (case fetch hc img of
        ((scan, err), hc1) \<Rightarrow>
          (case pollImages fetch images hc1 of
             (evs, hc2) \<Rightarrow>
               (FetchScanFromImage img #
                (case err of
                   Some e \<Rightarrow> [LogErrorf img e]
                 | None \<Rightarrow>
                     [LogInfof img scan,
                      Send (hubScanResults (HubImageScan (Sha img) scan))]) @
                Sleep checkHubThrottle # evs,
                hc2)))"

definition pollingPass ::
    "('h, 's) fetcher \<Rightarrow> 'h Perceptor \<Rightarrow> 's event list \<times> 'h Perceptor" where
  "pollingPass fetch perceptor =
     (case pollImages fetch (inProgressHubScans perceptor) (hubClient perceptor) of
        (evs, hc) \<Rightarrow>
          (Sleep checkHubForCompletedScansPause # evs, perceptor\<lparr>hubClient := hc\<rparr>))"

text \<open>Reading a trace: the actions sent, and the images fetched, in order.\<close>

fun sentActions :: "'s event list \<Rightarrow> 's action list" where
  "sentActions [] = []"
| "sentActions (Send a # evs) = a # sentActions evs"
| "sentActions (_ # evs) = sentActions evs"

fun fetchedImages :: "'s event list \<Rightarrow> Image list" where
  "fetchedImages [] = []"
| "fetchedImages (FetchScanFromImage img # evs) = img # fetchedImages evs"
| "fetchedImages (_ # evs) = fetchedImages evs"

text \<open>
  What the hub client returns for each image of a list when asked in order, each call on
  the client as the previous call left it.
\<close>

fun fetchResults ::
    "('h, 's) fetcher \<Rightarrow> Image list \<Rightarrow> 'h \<Rightarrow> (Image \<times> 's option \<times> error option) list" where
  "fetchResults fetch [] hc = []"
| "fetchResults fetch (img # images) hc =
     (case fetch hc img of
        ((scan, err), hc1) \<Rightarrow> (img, scan, err) # fetchResults fetch images hc1)"

text \<open>For the examples: a \<^verbatim>\<open>hub.NewFetcher\<close> that succeeds, with a client without state.\<close>

definition sampleNewFetcher :: "string \<Rightarrow> string \<Rightarrow> string \<Rightarrow> error + unit" where
  "sampleNewFetcher usr pwd baseURL = Inr ()"

text \<open>
  A hub client for the examples: the client counts the calls it has served; it fails on the
  image with sha b and returns the scan 1 for every other image.
\<close>

definition sampleFetch :: "(nat, nat) fetcher" where
  "sampleFetch hc img =
     ((if Sha img = ''b'' then (None, Some (Error ''hub unreachable'')) else (Some 1, None)),
      Suc hc)"


section \<open>Properties of the Hub\<close>

subsection \<open>The error ring\<close>

lemma recordError_alt:
  "recordError err hub =
     hub\<lparr>errors := (let es = errors hub @ (case err of None \<Rightarrow> [] | Some e \<Rightarrow> [e])
                     in if 1000 < length es then drop 500 es else es)\<rparr>"
  by (cases err) (simp_all add: recordError_def Let_def)

lemma recordError_length:
  "length (errors hub) \<le> 1000 \<Longrightarrow> length (errors (recordError err hub)) \<le> 1000"
  by (cases err) (auto simp: recordError_def Let_def)

lemma recordErrors_length:
  "length (errors hub) \<le> 1000 \<Longrightarrow> length (errors (recordErrors errs hub)) \<le> 1000"
  unfolding recordErrors_def
  by (induction errs arbitrary: hub) (simp_all add: recordError_length)

text \<open>As long as the ring has room, recording non-nil errors only appends them.\<close>

lemma recordErrors_below:
  "length (errors hub) + length es \<le> 1000 \<Longrightarrow>
     errors (recordErrors (map Some es) hub) = errors hub @ es"
  unfolding recordErrors_def
proof (induction es arbitrary: hub)
  case Nil
  then show ?case by simp
next
  case (Cons e es)
  have step: "errors (recordError (Some e) hub) = errors hub @ [e]"
    using Cons.prems by (simp add: recordError_def Let_def)
  have "length (errors (recordError (Some e) hub)) + length es \<le> 1000"
    using Cons.prems by (simp add: step)
  from Cons.IH [OF this] show ?case by (simp add: step)
qed

text \<open>
  Claim C4, as the code has it. On a hub whose ring holds at most 1000 errors (as it does
  from \<open>NewHub\<close> on): a nil error leaves the ring as it is; a non-nil error is appended; when
  the ring then holds 1001 errors the oldest 500 are dropped, which leaves the 501 most
  recent ones, the new error last; and after any sequence of calls the ring holds at most
  1000 errors.
\<close>

theorem recordError_ring:
  assumes "length (errors hub) \<le> 1000"
  shows "errors (recordError None hub) = errors hub \<and>
         (length (errors hub) < 1000 \<longrightarrow>
            errors (recordError (Some e) hub) = errors hub @ [e]) \<and>
         (length (errors hub) = 1000 \<longrightarrow>
            errors (recordError (Some e) hub) = drop 500 (errors hub) @ [e] \<and>
            length (errors (recordError (Some e) hub)) = 501) \<and>
         length (errors (recordErrors errs hub)) \<le> 1000"
  using assms recordErrors_length [of hub errs]
  by (simp add: recordError_def Let_def)

text \<open>The theorem at a new hub, recording a first error.\<close>

theorem recordError_ring_witness:
  "length (errors (NewHub ''user'' ''pw'' ''hub1'' () sampleTimings :: (unit, unit) Hub)) \<le> 1000 \<and>
   length (errors (NewHub ''user'' ''pw'' ''hub1'' () sampleTimings :: (unit, unit) Hub)) < 1000 \<and>
   errors (recordError (Some (Error ''login failed''))
             (NewHub ''user'' ''pw'' ''hub1'' () sampleTimings :: (unit, unit) Hub))
     = [Error ''login failed'']"
  using recordError_ring [of "NewHub ''user'' ''pw'' ''hub1'' () sampleTimings :: (unit, unit) Hub"
      "Error ''login failed''" "[]"]
  by (simp add: NewHub_def)

text \<open>
  Claim C4 as written says that the most recent 1000 errors are retained when the ring
  overflows. After 1001 non-nil errors recorded on a new hub the ring holds 501 errors.
\<close>

theorem recordError_retains_1000_counterexample:
  "length (errors (recordErrors (replicate 1001 (Some (Error ''e'')))
            (NewHub ''user'' ''pw'' ''hub1'' () sampleTimings :: (unit, unit) Hub))) = 501"
proof -
  let ?hub = "NewHub ''user'' ''pw'' ''hub1'' () sampleTimings :: (unit, unit) Hub"
  let ?e = "Error ''e''"
  have "(1001::nat) = Suc 1000" by simp
  then have split: "replicate 1001 (Some ?e) = replicate 1000 (Some ?e) @ [Some ?e]"
    by (simp only: replicate_Suc replicate_append_same)
  have first: "errors (recordErrors (replicate 1000 (Some ?e)) ?hub) = replicate 1000 ?e"
    using recordErrors_below [of ?hub "replicate 1000 ?e"] by (simp add: NewHub_def)
  have last: "recordErrors (replicate 1001 (Some ?e)) ?hub =
          recordError (Some ?e) (recordErrors (replicate 1000 (Some ?e)) ?hub)"
    unfolding split by (simp add: recordErrors_def)
  show ?thesis
    unfolding last by (simp add: recordError_alt first)
qed

subsection \<open>The login handler\<close>

lemmas timer_steps =
  pauseCheckScansForCompletionTimer_def pauseFetchScansTimer_def pauseFetchAllScansTimer_def
  pauseRefreshScansTimer_def resumeCheckScansForCompletionTimer_def resumeFetchScansTimer_def
  resumeFetchAllScansTimer_def resumeRefreshScansTimer_def callTimer_def

lemmas NewHub_unfold =
  NewHub_def startGetMetricsTimer_def startLoginTimer_def startRefreshScansTimer_def
  startFetchAllScansTimer_def startFetchUnknownScansTimer_def
  startCheckScansForCompletionTimer_def

lemma didLogin_success_when_down:
  assumes "status hub = ClientStatusDown"
  shows "processAction (didLogin impl None) hub =
           resumeRefreshScansTimer impl True
             (resumeFetchAllScansTimer impl True
               (resumeFetchScansTimer impl True
                 (resumeCheckScansForCompletionTimer impl True
                   (recordError None hub\<lparr>status := ClientStatusUp\<rparr>))))"
  using assms
  by (simp add: processAction_def didLogin_def didLogin_apply_def recordError_alt Let_def)

lemma didLogin_failure_when_up:
  assumes "status hub = ClientStatusUp"
  shows "processAction (didLogin impl (Some e)) hub =
           pauseRefreshScansTimer impl
             (pauseFetchAllScansTimer impl
               (pauseFetchScansTimer impl
                 (pauseCheckScansForCompletionTimer impl
                   (recordError (Some e) hub\<lparr>status := ClientStatusDown\<rparr>))))"
  using assms
  by (simp add: processAction_def didLogin_def didLogin_apply_def recordError_alt Let_def)

text \<open>
  Claim C5. When the actor processes the action of \<^verbatim>\<open>didLogin(nil)\<close> on a hub whose status
  is Down, the status becomes Up and each of the four data timers
  (checkScansForCompletion, fetchScans, fetchAllScans, refreshScans) receives one call
  \<^verbatim>\<open>Resume(true)\<close>; when it processes the action of \<^verbatim>\<open>didLogin(err)\<close> with a non-nil error on
  a hub whose status is Up, the status becomes Down and each of the four timers receives one
  call \<^verbatim>\<open>Pause()\<close>. The login timer and the metrics timer receive no call.
\<close>

theorem didLogin_transitions:
  "(status hub = ClientStatusDown \<longrightarrow>
      (let hub' = processAction (didLogin impl None) hub in
         status hub' = ClientStatusUp \<and>
         calls (checkScansForCompletionTimer hub') =
           calls (checkScansForCompletionTimer hub) @ [Resume True] \<and>
         calls (fetchScansTimer hub') = calls (fetchScansTimer hub) @ [Resume True] \<and>
         calls (fetchAllScansTimer hub') = calls (fetchAllScansTimer hub) @ [Resume True] \<and>
         calls (refreshScansTimer hub') = calls (refreshScansTimer hub) @ [Resume True] \<and>
         loginTimer hub' = loginTimer hub \<and>
         getMetricsTimer hub' = getMetricsTimer hub)) \<and>
   (status hub = ClientStatusUp \<longrightarrow>
      (let hub' = processAction (didLogin impl (Some e)) hub in
         status hub' = ClientStatusDown \<and>
         calls (checkScansForCompletionTimer hub') =
           calls (checkScansForCompletionTimer hub) @ [Pause] \<and>
         calls (fetchScansTimer hub') = calls (fetchScansTimer hub) @ [Pause] \<and>
         calls (fetchAllScansTimer hub') = calls (fetchAllScansTimer hub) @ [Pause] \<and>
         calls (refreshScansTimer hub') = calls (refreshScansTimer hub) @ [Pause] \<and>
         loginTimer hub' = loginTimer hub \<and>
         getMetricsTimer hub' = getMetricsTimer hub))"
proof (intro conjI impI)
  assume down: "status hub = ClientStatusDown"
  show "let hub' = processAction (didLogin impl None) hub in
         status hub' = ClientStatusUp \<and>
         calls (checkScansForCompletionTimer hub') =
           calls (checkScansForCompletionTimer hub) @ [Resume True] \<and>
         calls (fetchScansTimer hub') = calls (fetchScansTimer hub) @ [Resume True] \<and>
         calls (fetchAllScansTimer hub') = calls (fetchAllScansTimer hub) @ [Resume True] \<and>
         calls (refreshScansTimer hub') = calls (refreshScansTimer hub) @ [Resume True] \<and>
         loginTimer hub' = loginTimer hub \<and>
         getMetricsTimer hub' = getMetricsTimer hub"
    unfolding didLogin_success_when_down [OF down]
    by (simp add: timer_steps recordError_alt)
next
  assume up: "status hub = ClientStatusUp"
  show "let hub' = processAction (didLogin impl (Some e)) hub in
         status hub' = ClientStatusDown \<and>
         calls (checkScansForCompletionTimer hub') =
           calls (checkScansForCompletionTimer hub) @ [Pause] \<and>
         calls (fetchScansTimer hub') = calls (fetchScansTimer hub) @ [Pause] \<and>
         calls (fetchAllScansTimer hub') = calls (fetchAllScansTimer hub) @ [Pause] \<and>
         calls (refreshScansTimer hub') = calls (refreshScansTimer hub) @ [Pause] \<and>
         loginTimer hub' = loginTimer hub \<and>
         getMetricsTimer hub' = getMetricsTimer hub"
    unfolding didLogin_failure_when_up [OF up]
    by (simp add: timer_steps recordError_alt)
qed

text \<open>
  The theorem on a new hub: a first login that succeeds, then a login that fails, with
  timers whose calls all return nil.
\<close>

theorem didLogin_transitions_witness:
  "status (NewHub ''user'' ''pw'' ''hub1'' () sampleTimings :: (unit, unit) Hub) = ClientStatusDown \<and>
   status (processAction (didLogin quietTimer None)
      (NewHub ''user'' ''pw'' ''hub1'' () sampleTimings :: (unit, unit) Hub)) = ClientStatusUp \<and>
   calls (fetchAllScansTimer (processAction (didLogin quietTimer None)
      (NewHub ''user'' ''pw'' ''hub1'' () sampleTimings :: (unit, unit) Hub))) = [Resume True] \<and>
   status (processAction (didLogin quietTimer (Some (Error ''login failed'')))
      (processAction (didLogin quietTimer None)
        (NewHub ''user'' ''pw'' ''hub1'' () sampleTimings :: (unit, unit) Hub))) = ClientStatusDown \<and>
   calls (fetchAllScansTimer (processAction (didLogin quietTimer (Some (Error ''login failed'')))
      (processAction (didLogin quietTimer None)
        (NewHub ''user'' ''pw'' ''hub1'' () sampleTimings :: (unit, unit) Hub)))) = [Resume True, Pause]"
proof -
  let ?down = "NewHub ''user'' ''pw'' ''hub1'' () sampleTimings :: (unit, unit) Hub"
  let ?impl = quietTimer
  let ?up = "processAction (didLogin ?impl None) ?down"
  have down: "status ?down = ClientStatusDown"
    by (simp add: NewHub_def)
  have fresh: "calls (fetchAllScansTimer ?down) = []"
    by (simp add: NewHub_unfold)
  from didLogin_transitions [of ?down ?impl "Error ''login failed''"] down fresh
  have up: "status ?up = ClientStatusUp \<and> calls (fetchAllScansTimer ?up) = [Resume True]"
    by (simp add: Let_def)
  from didLogin_transitions [of ?up ?impl "Error ''login failed''"] up
  have "status (processAction (didLogin ?impl (Some (Error ''login failed''))) ?up)
          = ClientStatusDown \<and>
        calls (fetchAllScansTimer (processAction (didLogin ?impl (Some (Error ''login failed''))) ?up))
          = [Resume True, Pause]"
    by (simp add: Let_def)
  with down up show ?thesis by simp
qed

text \<open>
  Claim C10. When the login result does not cross the boundary (a failed login while the
  status is Down, or a successful login while it is Up), processing the action of
  \<^verbatim>\<open>didLogin\<close> does what \<^verbatim>\<open>recordError\<close> does and nothing else: the status and all six
  timers, with the calls they have received, are as before, the hub differs from the old one
  in its error ring at most, and a nil error on a ring of at most 1000 entries leaves the
  hub as it was.
\<close>

theorem didLogin_no_transition:
  assumes "(err \<noteq> None \<and> status hub = ClientStatusDown) \<or>
           (err = None \<and> status hub = ClientStatusUp)"
  shows "let hub' = processAction (didLogin impl err) hub in
           status hub' = status hub \<and>
           checkScansForCompletionTimer hub' = checkScansForCompletionTimer hub \<and>
           fetchScansTimer hub' = fetchScansTimer hub \<and>
           fetchAllScansTimer hub' = fetchAllScansTimer hub \<and>
           refreshScansTimer hub' = refreshScansTimer hub \<and>
           loginTimer hub' = loginTimer hub \<and>
           getMetricsTimer hub' = getMetricsTimer hub \<and>
           hub' = hub\<lparr>errors := errors hub'\<rparr> \<and>
           hub' = recordError err hub \<and>
           (err = None \<and> length (errors hub) \<le> 1000 \<longrightarrow> hub' = hub) \<and>
           (\<forall>e. err = Some e \<and> length (errors hub) < 1000 \<longrightarrow>
                  errors hub' = errors hub @ [e])"
  using assms
  by (auto simp: processAction_def didLogin_def didLogin_apply_def recordError_alt Let_def)

text \<open>The theorem on a new hub, whose status is Down, with a login that fails.\<close>

theorem didLogin_no_transition_witness:
  "status (NewHub ''user'' ''pw'' ''hub1'' () sampleTimings :: (unit, unit) Hub) = ClientStatusDown \<and>
   length (errors (NewHub ''user'' ''pw'' ''hub1'' () sampleTimings :: (unit, unit) Hub)) < 1000 \<and>
   processAction (didLogin quietTimer (Some (Error ''login failed'')))
      (NewHub ''user'' ''pw'' ''hub1'' () sampleTimings :: (unit, unit) Hub) =
     (NewHub ''user'' ''pw'' ''hub1'' () sampleTimings) \<lparr>errors := [Error ''login failed'']\<rparr>"
proof -
  let ?down = "NewHub ''user'' ''pw'' ''hub1'' () sampleTimings :: (unit, unit) Hub"
  have down: "status ?down = ClientStatusDown"
    by (simp add: NewHub_def)
  have ring: "errors ?down = []"
    by (simp add: NewHub_def)
  let ?after = "processAction (didLogin quietTimer (Some (Error ''login failed''))) ?down"
  have "(Some (Error ''login failed'') \<noteq> None \<and> status ?down = ClientStatusDown) \<or>
        (Some (Error ''login failed'') = None \<and> status ?down = ClientStatusUp)"
    using down by simp
  note inst = didLogin_no_transition [OF this, of quietTimer, unfolded Let_def]
  from inst have frame: "?after = ?down\<lparr>errors := errors ?after\<rparr>"
    by blast
  from inst have "length (errors ?down) < 1000 \<longrightarrow>
      errors ?after = errors ?down @ [Error ''login failed'']"
    by blast
  then have appended: "errors ?after = [Error ''login failed'']"
    using ring by simp
  from frame [unfolded appended] down ring show ?thesis by simp
qed

subsection \<open>Stopping\<close>

text \<open>
  Claim C9. \<^verbatim>\<open>Stop\<close> has no guard: on a hub whose stop channel is open the first call
  closes the channel, which is the signal the actor loop and the timers wait for, and
  changes nothing else; a second call on the same hub panics with a close of a closed
  channel.
\<close>

theorem Stop_twice:
  assumes "stop hub = ChanOpen"
  shows "Stop hub = Inr (hub\<lparr>stop := ChanClosed\<rparr>) \<and>
         Stop (hub\<lparr>stop := ChanClosed\<rparr>) = Inl CloseOfClosedChannel"
  using assms by (simp add: Stop_def)

text \<open>The theorem on a new hub.\<close>

theorem Stop_twice_witness:
  "stop (NewHub ''user'' ''pw'' ''hub1'' () sampleTimings :: (unit, unit) Hub) = ChanOpen \<and>
   Stop (NewHub ''user'' ''pw'' ''hub1'' () sampleTimings :: (unit, unit) Hub) =
     Inr ((NewHub ''user'' ''pw'' ''hub1'' () sampleTimings) \<lparr>stop := ChanClosed\<rparr>) \<and>
   Stop ((NewHub ''user'' ''pw'' ''hub1'' () sampleTimings :: (unit, unit) Hub) \<lparr>stop := ChanClosed\<rparr>) =
     Inl CloseOfClosedChannel"
proof -
  have fresh: "stop (NewHub ''user'' ''pw'' ''hub1'' () sampleTimings :: (unit, unit) Hub) = ChanOpen"
    by (simp add: NewHub_def)
  from Stop_twice [OF fresh] fresh show ?thesis by simp
qed


section \<open>Properties of the HubManager\<close>

subsection \<open>The keys of the map, step by step\<close>

lemma known_hub_iff: "u \<in> hubURLsOf hm \<longleftrightarrow> map_of (hubs hm) u \<noteq> None"
  by (simp add: hubURLsOf_def map_of_eq_None_iff)







subsection \<open>The calls of Stop\<close>






subsection \<open>The clients created\<close>







subsection \<open>Schedules\<close>

text \<open>
  Two schedules in particular: the removal loop runs to its end before the goroutine makes
  its first step, or the goroutine is done before the removal loop starts.
\<close>

lemma append_in_shuffles: "ys @ xs \<in> shuffles xs ys"
  by (induction ys) (simp_all add: Cons_in_shuffles_rightI)


lemma goroutine_first_schedule:
  "map Create (hubsToCreate hubURLs hm) @ map Delete (map fst (hubs hm))
     \<in> SetHubs_schedules hubURLs hm"
  unfolding SetHubs_schedules_def shuffles_commutes [of "map Create (hubsToCreate hubURLs hm)"]
  by (rule append_in_shuffles)






subsection \<open>Reconciling the set of hubs\<close>



subsection \<open>Routing by URL\<close>

text \<open>
  Claim C8. \<^verbatim>\<open>StartScanClient(hubURL, scanName)\<close> and \<^verbatim>\<open>FinishScanClient(hubURL, scanName)\<close>
  of the manager return a non-nil error exactly when \<open>hubURL\<close> is not a key of the map of
  hubs; the error is "hub ... not found" and the manager is unchanged. When the hub is
  known they return nil and the only effect is the one call, with the scan name, on the
  client registered under \<open>hubURL\<close>.
\<close>

theorem route_by_URL:
  "(fst (StartScanClient hubURL scanName hm) \<noteq> None \<longleftrightarrow> hubURL \<notin> hubURLsOf hm) \<and>
   (fst (FinishScanClient hubURL scanName hm) \<noteq> None \<longleftrightarrow> hubURL \<notin> hubURLsOf hm) \<and>
   (hubURL \<notin> hubURLsOf hm \<longrightarrow>
      StartScanClient hubURL scanName hm = (Some (Error (''hub '' @ hubURL @ '' not found'')), hm) \<and>
      FinishScanClient hubURL scanName hm = (Some (Error (''hub '' @ hubURL @ '' not found'')), hm)) \<and>
   (hubURL \<in> hubURLsOf hm \<longrightarrow>
      StartScanClient hubURL scanName hm =
        (None, hm\<lparr>clientCalls := clientCalls hm @ [(hubURL, CallStartScanClient scanName)]\<rparr>) \<and>
      FinishScanClient hubURL scanName hm =
        (None, hm\<lparr>clientCalls := clientCalls hm @ [(hubURL, CallFinishScanClient scanName)]\<rparr>))"
  by (auto simp: known_hub_iff StartScanClient_def FinishScanClient_def split: option.splits)

text \<open>The theorem on the manager that knows h1 and h2, for the URLs h1 and h9.\<close>

theorem route_by_URL_witness:
  "''h1'' \<in> hubURLsOf sampleHubManager \<and> ''h9'' \<notin> hubURLsOf sampleHubManager \<and>
   StartScanClient ''h1'' ''scan-a'' sampleHubManager =
     (None, sampleHubManager\<lparr>clientCalls := [(''h1'', CallStartScanClient ''scan-a'')]\<rparr>) \<and>
   FinishScanClient ''h1'' ''scan-a'' sampleHubManager =
     (None, sampleHubManager\<lparr>clientCalls := [(''h1'', CallFinishScanClient ''scan-a'')]\<rparr>) \<and>
   StartScanClient ''h9'' ''scan-a'' sampleHubManager =
     (Some (Error ''hub h9 not found''), sampleHubManager) \<and>
   FinishScanClient ''h9'' ''scan-a'' sampleHubManager =
     (Some (Error ''hub h9 not found''), sampleHubManager)"
proof -
  have known: "''h1'' \<in> hubURLsOf sampleHubManager"
    by (simp add: hubURLsOf_def sampleHubManager_def)
  have unknown: "''h9'' \<notin> hubURLsOf sampleHubManager"
    by (simp add: hubURLsOf_def sampleHubManager_def)
  have calls: "clientCalls sampleHubManager = []"
    by (simp add: sampleHubManager_def)
  show ?thesis
    using route_by_URL [of "''h1''" "''scan-a''" sampleHubManager]
      route_by_URL [of "''h9''" "''scan-a''" sampleHubManager] known unknown calls
    by simp
qed


section \<open>Properties of the Perceptor\<close>

subsection \<open>The completion-polling loop\<close>

lemma pollImages_sent:
  "pollImages fetch images hc = (evs, hc') \<Longrightarrow>
   sentActions evs =
     map (\<lambda>(img, scan, err). hubScanResults (HubImageScan (Sha img) scan))
       (filter (\<lambda>(img, scan, err). err = None) (fetchResults fetch images hc))"
  by (induction images arbitrary: hc evs hc') (auto split: prod.splits option.splits)

lemma pollImages_fetched:
  "pollImages fetch images hc = (evs, hc') \<Longrightarrow> fetchedImages evs = images"
  by (induction images arbitrary: hc evs hc') (auto split: prod.splits option.splits)

lemma fetchResults_images: "map fst (fetchResults fetch images hc) = images"
  by (induction images arbitrary: hc) (auto split: prod.splits)

text \<open>
  Claim C7. One pass of the loop of \<^verbatim>\<open>startPollingHubForCompletedScans\<close> calls
  \<^verbatim>\<open>FetchScanFromImage\<close> once for every image of the current \<open>inProgressHubScans\<close>, in
  order; and the actions it sends are, in the same order, one \<open>hubScanResults\<close> with the
  sha of the image and the scan fetched for exactly those images whose fetch returned a nil
  error: nothing is sent for an image whose fetch failed, and the loop goes on.
\<close>

theorem pollingPass_submits:
  "fetchedImages (fst (pollingPass fetch perceptor)) = inProgressHubScans perceptor \<and>
   map fst (fetchResults fetch (inProgressHubScans perceptor) (hubClient perceptor)) =
     inProgressHubScans perceptor \<and>
   sentActions (fst (pollingPass fetch perceptor)) =
     map (\<lambda>(img, scan, err). hubScanResults (HubImageScan (Sha img) scan))
       (filter (\<lambda>(img, scan, err). err = None)
          (fetchResults fetch (inProgressHubScans perceptor) (hubClient perceptor)))"
proof -
  obtain evs hc where run:
    "pollImages fetch (inProgressHubScans perceptor) (hubClient perceptor) = (evs, hc)"
    by (cases "pollImages fetch (inProgressHubScans perceptor) (hubClient perceptor)")
  then have pass: "fst (pollingPass fetch perceptor) = Sleep checkHubForCompletedScansPause # evs"
    by (simp add: pollingPass_def)
  show ?thesis
    unfolding pass
    by (simp add: pollImages_sent [OF run] pollImages_fetched [OF run] fetchResults_images)
qed

text \<open>
  The theorem on three images a, b, c and a hub client that fails on b: there are three
  fetches, and results are sent for a and c.
\<close>

theorem pollingPass_submits_witness:
  "fetchedImages (fst (pollingPass sampleFetch
      \<lparr>hubClient = 0, reducer = NewModel 2, inProgressScanClientScans = [],
       inProgressHubScans = [\<lparr>Sha = ''a'', Name = ''img-a''\<rparr>, \<lparr>Sha = ''b'', Name = ''img-b''\<rparr>,
                             \<lparr>Sha = ''c'', Name = ''img-c''\<rparr>]\<rparr>)) =
     [\<lparr>Sha = ''a'', Name = ''img-a''\<rparr>, \<lparr>Sha = ''b'', Name = ''img-b''\<rparr>,
      \<lparr>Sha = ''c'', Name = ''img-c''\<rparr>] \<and>
   sentActions (fst (pollingPass sampleFetch
      \<lparr>hubClient = 0, reducer = NewModel 2, inProgressScanClientScans = [],
       inProgressHubScans = [\<lparr>Sha = ''a'', Name = ''img-a''\<rparr>, \<lparr>Sha = ''b'', Name = ''img-b''\<rparr>,
                             \<lparr>Sha = ''c'', Name = ''img-c''\<rparr>]\<rparr>)) =
     [hubScanResults (HubImageScan ''a'' (Some 1)), hubScanResults (HubImageScan ''c'' (Some 1))]"
  using pollingPass_submits [of sampleFetch
      "\<lparr>hubClient = 0, reducer = NewModel 2, inProgressScanClientScans = [],
        inProgressHubScans = [\<lparr>Sha = ''a'', Name = ''img-a''\<rparr>, \<lparr>Sha = ''b'', Name = ''img-b''\<rparr>,
                              \<lparr>Sha = ''c'', Name = ''img-c''\<rparr>]\<rparr>"]
  by (simp add: sampleFetch_def)

subsection \<open>Construction\<close>

text \<open>
  Claim C3, as the code has it. A Perceptor built by \<^verbatim>\<open>NewPerceptor\<close> has a central model
  whose concurrent-scan limit is the constant 2, whatever the configuration; and
  \<^verbatim>\<open>NewPerceptor\<close> reads no field of the configuration other than \<open>HubHost\<close>, \<open>HubUser\<close> and
  \<open>HubUserPassword\<close>: two configurations that agree on these three give the same result.
\<close>

theorem NewPerceptor_limit_fixed:
  "(NewPerceptor NewFetcher cfg = Inr (perceptor, started) \<longrightarrow>
      concurrentScanLimit (reducer perceptor) = 2) \<and>
   (HubHost cfg = HubHost cfg' \<and> HubUser cfg = HubUser cfg' \<and>
    HubUserPassword cfg = HubUserPassword cfg' \<longrightarrow>
      NewPerceptor NewFetcher cfg = NewPerceptor NewFetcher cfg')"
  by (auto simp: NewPerceptor_def newPerceptorHelper_def Let_def split: sum.splits)

text \<open>The theorem on two configurations that differ in their concurrent-scan limit only.\<close>

theorem NewPerceptor_limit_fixed_witness:
  "NewPerceptor sampleNewFetcher
      \<lparr>HubHost = ''hub.example.com'', HubUser = ''user'', HubUserPassword = ''pw'',
       ConcurrentScanLimit = 7\<rparr> =
     Inr (\<lparr>hubClient = (), reducer = NewModel 2, inProgressScanClientScans = [],
           inProgressHubScans = []\<rparr>,
          [CombineActions, CloseTheCircle, StartCheckingForImagesInHub,
           StartPollingHubForCompletedScans]) \<and>
   concurrentScanLimit (NewModel 2) = 2 \<and>
   NewPerceptor sampleNewFetcher
      \<lparr>HubHost = ''hub.example.com'', HubUser = ''user'', HubUserPassword = ''pw'',
       ConcurrentScanLimit = 7\<rparr> =
   NewPerceptor sampleNewFetcher
      \<lparr>HubHost = ''hub.example.com'', HubUser = ''user'', HubUserPassword = ''pw'',
       ConcurrentScanLimit = 5\<rparr>"
proof -
  let ?f = sampleNewFetcher
  let ?cfg7 = "\<lparr>HubHost = ''hub.example.com'', HubUser = ''user'', HubUserPassword = ''pw'',
       ConcurrentScanLimit = 7\<rparr>"
  let ?cfg5 = "\<lparr>HubHost = ''hub.example.com'', HubUser = ''user'', HubUserPassword = ''pw'',
       ConcurrentScanLimit = 5\<rparr>"
  let ?p = "\<lparr>hubClient = (), reducer = NewModel 2, inProgressScanClientScans = [],
           inProgressHubScans = []\<rparr>"
  let ?g = "[CombineActions, CloseTheCircle, StartCheckingForImagesInHub,
           StartPollingHubForCompletedScans]"
  have built: "NewPerceptor ?f ?cfg7 = Inr (?p, ?g)"
    by (simp add: NewPerceptor_def newPerceptorHelper_def sampleNewFetcher_def)
  from NewPerceptor_limit_fixed [of ?f ?cfg7 ?p ?g ?cfg5] built
  show ?thesis by simp
qed

text \<open>
  Claim C3 as written says that the limit is taken from the configuration. A configuration
  whose concurrent-scan limit is 7 gives a Perceptor whose model has the limit 2.
\<close>

theorem NewPerceptor_limit_from_config_counterexample:
  "NewPerceptor sampleNewFetcher
      \<lparr>HubHost = ''hub.example.com'', HubUser = ''user'', HubUserPassword = ''pw'',
       ConcurrentScanLimit = 7\<rparr> =
     Inr (\<lparr>hubClient = (), reducer = NewModel 2, inProgressScanClientScans = [],
           inProgressHubScans = []\<rparr>,
          [CombineActions, CloseTheCircle, StartCheckingForImagesInHub,
           StartPollingHubForCompletedScans]) \<and>
   concurrentScanLimit (NewModel 2) \<noteq>
     ConcurrentScanLimit \<lparr>HubHost = ''hub.example.com'', HubUser = ''user'',
                           HubUserPassword = ''pw'', ConcurrentScanLimit = 7\<rparr>"
  by (simp add: NewPerceptor_def newPerceptorHelper_def sampleNewFetcher_def)

subsection \<open>The stalled-scan detector\<close>

text \<open>
  Claim C2. One pass of \<^verbatim>\<open>startCheckingForStalledScans\<close> sleeps one minute and sends a
  \<open>requeueStalledScan\<close> for an ImageInfo that has been in its state for 31 minutes. But the
  goroutines that \<^verbatim>\<open>newPerceptorHelper\<close> starts are the two that forward actions and models,
  the image-checking loop and the completion-polling loop: the stalled-scan detector is not
  among them, so in a Perceptor as constructed no pass of it ever runs.
\<close>

theorem stalled_scan_detector_not_started:
  "StartCheckingForStalledScans \<notin> set (snd (newPerceptorHelper hc)) \<and>
   snd (newPerceptorHelper hc) =
     [CombineActions, CloseTheCircle, StartCheckingForImagesInHub,
      StartPollingHubForCompletedScans] \<and>
   (checkForStalledScansPass (31 * Minute)
      ((fst (newPerceptorHelper hc))
         \<lparr>inProgressScanClientScans :=
            [\<lparr>ImageSha = ''x'', TimeOfLastStatusChange = 0\<rparr>]\<rparr>) :: 's event list) =
     [Sleep (1 * Minute), Send (requeueStalledScan ''x'')]"
  by (simp add: newPerceptorHelper_def checkForStalledScansPass_def timeInCurrentScanStatus_def
        stalledScanTimeout_def checkForStalledScansPause_def Minute_def Second_def)

end
